theory Spec2Isabelle
  imports Main
begin

section \<open>MIRACL reranking evaluation: the evaluator of MIRACLReranking.py\<close>

text \<open>
  The development embeds \<open>MIRACLRerankingEvaluator\<close>: the rerank scorer \<open>rerank\<close> and
  the two metric computations \<open>compute_metrics_batched\<close> and
  \<open>compute_metrics_individual\<close>. The encoder, the similarity function and the
  relevance-metrics engine are collaborators of the class and enter as parameters.
  Scores are elements of a linear order; IEEE not-a-number values are outside the model.
\<close>

subsection \<open>Python values: errors, strings of numbers, dictionaries\<close>

text \<open>
  The exceptions the code can raise. \<open>ValueError\<close> carries its message; it is the error the
  specification calls InvalidInput. \<open>IndexError\<close> is raised by \<open>self.samples[0]\<close> on an empty
  sequence, \<open>UnboundLocalError\<close> by reading a local variable that no branch has assigned,
  \<open>TypeError\<close> by iterating a value that is not iterable, and \<open>RuntimeError\<close> by
  \<open>torch.amax\<close> over a dimension of size zero.
\<close>

datatype error =
    ValueError string
  | IndexError
  | UnboundLocalError
  | TypeError
  | RuntimeError

text \<open>\<open>str(n)\<close> for a non-negative integer: its decimal digits, most significant first.\<close>

definition digit_char :: "nat \<Rightarrow> char" where
  "digit_char d = char_of (48 + d)"

function str :: "nat \<Rightarrow> string" where
  "str n = (if n < 10 then [digit_char n] else str (n div 10) @ [digit_char (n mod 10)])"
  by pat_completeness auto
termination
  by (relation "measure (\<lambda>n. n)") auto

declare str.simps [simp del]

text \<open>Reading a decimal string back; used only to show that \<open>str\<close> is injective.\<close>

definition digit_val :: "char \<Rightarrow> nat" where
  "digit_val c = of_char c - 48"

definition parse_nat :: "string \<Rightarrow> nat" where
  "parse_nat s = foldl (\<lambda>a c. 10 * a + digit_val c) 0 s"

text \<open>
  A dictionary is an association list in insertion order with distinct keys.
  \<open>d[k] = v\<close> replaces the value of a key that is present, in place, and appends a new key.
\<close>

type_synonym ('k, 'v) dict = "('k \<times> 'v) list"

fun setitem :: "('k, 'v) dict \<Rightarrow> 'k \<Rightarrow> 'v \<Rightarrow> ('k, 'v) dict" where
  "setitem [] k v = [(k, v)]"
| "setitem ((k', v') # d) k v = (if k' = k then (k, v) # d else (k', v') # setitem d k v)"

text \<open>
  A dictionary comprehension \<open>{k: v for ...}\<close> and a dictionary display \<open>{**a, **b}\<close> store
  their items one after the other into a dictionary that starts empty.
\<close>

definition dict_of_items :: "('k \<times> 'v) list \<Rightarrow> ('k, 'v) dict" where
  "dict_of_items kvs = foldl (\<lambda>d (k, v). setitem d k v) [] kvs"

definition keys :: "('k, 'v) dict \<Rightarrow> 'k list" where
  "keys d = map fst d"

definition getitem :: "('k, 'v) dict \<Rightarrow> 'k \<Rightarrow> 'v option" where
  "getitem d k = map_of d k"

subsection \<open>The rerank scorer\<close>

text \<open>
  The value the similarity function returns: a tensor of one dimension (\<open>Vec\<close>, one score
  per candidate) or of two (\<open>Mat\<close>, a list of rows, one row per query variant), as its
  interface has it. An embedding block is the list of its rows, so \<open>shape[0]\<close> is its length.
\<close>

datatype 's tensor = Vec "'s list" | Mat "'s list list"

text \<open>
  \<open>torch.amax(pred_scores, dim=0)\<close> of a two-dimensional tensor: the maximum of each column.
  It raises when there is no row to take a maximum of. The rows of a tensor have the same
  length; on rows of different lengths, which no tensor has, the definition keeps the
  columns that all rows have.
\<close>

definition amax_dim0 :: "('s::linorder) list list \<Rightarrow> error + 's list" where
  "amax_dim0 rows =
     (case rows of
        [] \<Rightarrow> Inl RuntimeError
      | r # rs \<Rightarrow> Inr (foldl (\<lambda>acc row. map2 max acc row) r rs))"

text \<open>
  \<^verbatim>\<open>
  def rerank(self, query_emb, docs_emb):
      if not query_emb.shape[0]:
          raise ValueError("Empty query embedding")
      if not docs_emb.shape[0]:
          return {}
      pred_scores = self.similarity_fct(query_emb, docs_emb)
      if len(pred_scores.shape) > 1:
          pred_scores = torch.amax(pred_scores, dim=0)
      return {str(i): score.detach().numpy().item() for i, score in enumerate(pred_scores)}
  \<close>
\<close>

definition rerank ::
  "('e list \<Rightarrow> 'e list \<Rightarrow> ('s::linorder) tensor) \<Rightarrow> 'e list \<Rightarrow> 'e list \<Rightarrow> error + (string, 's) dict"
where
  "rerank similarity_fct query_emb docs_emb =
     (if length query_emb = 0 then Inl (ValueError ''Empty query embedding'')
      else if length docs_emb = 0 then Inr []
      else
        (case (case similarity_fct query_emb docs_emb of
                 Mat rows \<Rightarrow> amax_dim0 rows
               | Vec v \<Rightarrow> Inr v) of
           Inl e \<Rightarrow> Inl e
         | Inr pred_scores \<Rightarrow>
             Inr (dict_of_items (map (\<lambda>(i, score). (str i, score)) (enumerate 0 pred_scores)))))"

text \<open>
  The contract of the similarity function: for \<open>R\<close> query rows and \<open>C\<close> candidate rows it
  returns the \<open>R \<times> C\<close> matrix whose entry \<open>(i, j)\<close> is the similarity of query row \<open>i\<close> and
  candidate row \<open>j\<close> (\<open>pairwise\<close>); \<open>has_shape\<close> is the part of the contract that speaks of
  the shape only, a vector of \<open>C\<close> scores being allowed as well.
\<close>

definition pairwise :: "('e \<Rightarrow> 'e \<Rightarrow> 's) \<Rightarrow> 'e list \<Rightarrow> 'e list \<Rightarrow> 's tensor" where
  "pairwise sim query_emb docs_emb = Mat (map (\<lambda>q. map (\<lambda>d. sim q d) docs_emb) query_emb)"

definition has_shape :: "'s tensor \<Rightarrow> nat \<Rightarrow> nat \<Rightarrow> bool" where
  "has_shape t R C =
     (case t of
        Vec v \<Rightarrow> length v = C
      | Mat rows \<Rightarrow> length rows = R \<and> list_all (\<lambda>row. length row = C) rows)"

subsection \<open>Samples, the model and the relevance-metrics engine\<close>

text \<open>
  A Python value as far as the code tells values apart with \<open>isinstance\<close>: a \<open>str\<close>, a
  \<open>list\<close> of \<open>str\<close>, or anything else (\<open>Other\<close> stands for a value that is neither and that
  cannot be iterated, such as \<open>None\<close> or a number). The query field of a sample is such a
  value, and so is each element of the list handed to an encoder.
\<close>

datatype pyval = Str string | StrList "string list" | Other

text \<open>A sample: the fields \<open>sample["query"]\<close>, \<open>sample["positive"]\<close>, \<open>sample["candidates"]\<close>.\<close>

record sample =
  query :: pyval
  positive :: "string list"
  candidates :: "string list"

text \<open>
  The model. The parameter is annotated \<open>Encoder | EncoderWithQueryCorpusEncode\<close>: an
  instance of \<open>EncoderWithQueryCorpusEncode\<close> has the three functions \<open>encode\<close>,
  \<open>encode_queries\<close> and \<open>encode_corpus\<close>; any other model has \<open>encode\<close> and may or may not
  have attributes named \<open>encode_queries\<close> and \<open>encode_corpus\<close>. An encoding function takes
  the list of texts (with the batch size the evaluator was configured with) and returns
  the rows of the array that \<open>np.asarray\<close> makes of its result.
\<close>

datatype 'e model =
    Encoder "pyval list \<Rightarrow> 'e list" "(pyval list \<Rightarrow> 'e list) option" "(pyval list \<Rightarrow> 'e list) option"
  | EncoderWithQueryCorpusEncode "pyval list \<Rightarrow> 'e list" "pyval list \<Rightarrow> 'e list" "pyval list \<Rightarrow> 'e list"

text \<open>
  The batched computation selects the encoding functions by the type of the model:
  \<^verbatim>\<open>
  encode_queries_func = (model.encode_queries
      if isinstance(model, EncoderWithQueryCorpusEncode) else model.encode)
  encode_corpus_func = (model.encode_corpus
      if isinstance(model, EncoderWithQueryCorpusEncode) else model.encode)
  \<close>
\<close>

fun encode_queries_func_batched :: "'e model \<Rightarrow> pyval list \<Rightarrow> 'e list" where
  "encode_queries_func_batched (EncoderWithQueryCorpusEncode encode encode_queries encode_corpus) =
     encode_queries"
| "encode_queries_func_batched (Encoder encode encode_queries encode_corpus) = encode"

fun encode_corpus_func_batched :: "'e model \<Rightarrow> pyval list \<Rightarrow> 'e list" where
  "encode_corpus_func_batched (EncoderWithQueryCorpusEncode encode encode_queries encode_corpus) =
     encode_corpus"
| "encode_corpus_func_batched (Encoder encode encode_queries encode_corpus) = encode"

text \<open>
  The individual computation selects each of them by the presence of the attribute:
  \<^verbatim>\<open>
  encode_queries_func = (model.encode_queries
      if hasattr(model, "encode_queries") else model.encode)
  encode_corpus_func = (model.encode_corpus
      if hasattr(model, "encode_corpus") else model.encode)
  \<close>
\<close>

fun encode_queries_func_individual :: "'e model \<Rightarrow> pyval list \<Rightarrow> 'e list" where
  "encode_queries_func_individual (EncoderWithQueryCorpusEncode encode encode_queries encode_corpus) =
     encode_queries"
| "encode_queries_func_individual (Encoder encode encode_queries encode_corpus) =
     (case encode_queries of Some f \<Rightarrow> f | None \<Rightarrow> encode)"

fun encode_corpus_func_individual :: "'e model \<Rightarrow> pyval list \<Rightarrow> 'e list" where
  "encode_corpus_func_individual (EncoderWithQueryCorpusEncode encode encode_queries encode_corpus) =
     encode_corpus"
| "encode_corpus_func_individual (Encoder encode encode_queries encode_corpus) =
     (case encode_corpus of Some f \<Rightarrow> f | None \<Rightarrow> encode)"

text \<open>
  The collections handed to \<open>RetrievalEvaluator.evaluate\<close>, and the engine itself: from the
  relevance judgments, the scores and the cutoffs it returns the four metric groups
  (ndcg, map, recall, precision), or raises.
\<close>

type_synonym 's results = "(string, (string, 's) dict) dict"
type_synonym qrels = "(string, (string, nat) dict) dict"
type_synonym 'm metrics = "(string, 'm) dict"
type_synonym ('s, 'm) engine =
  "qrels \<Rightarrow> 's results \<Rightarrow> nat list \<Rightarrow> error + ('m metrics \<times> 'm metrics \<times> 'm metrics \<times> 'm metrics)"

text \<open>
  \<open>{str(i): 1 if doc in positive else 0 for i, doc in enumerate(docs)}\<close>, the relevance
  judgments both computations build for a sample. The batched computation tests membership
  in \<open>instance["positive"]\<close>, the individual one in \<open>set(instance["positive"])\<close>: the same
  test.
\<close>

definition relevance_judgments :: "string list \<Rightarrow> string list \<Rightarrow> (string, nat) dict" where
  "relevance_judgments pos docs =
     dict_of_items (map (\<lambda>(i, doc). (str i, if doc \<in> set pos then 1 else 0)) (enumerate 0 docs))"

text \<open>
  The last two statements of both computations: the engine is called once and its four
  groups are merged, \<open>{**ndcg, **_map, **recall, **precision}\<close>.
\<close>

definition evaluate_and_merge ::
  "('s, 'm) engine \<Rightarrow> nat list \<Rightarrow> 's results \<times> qrels \<Rightarrow> error + 'm metrics"
where
  "evaluate_and_merge evaluate k_values rq =
     (case rq of (results, qrels) \<Rightarrow>
        (case evaluate qrels results k_values of
           Inl e \<Rightarrow> Inl e
         | Inr (ndcg, map', recall, precision) \<Rightarrow>
             Inr (dict_of_items (ndcg @ map' @ recall @ precision))))"

subsection \<open>The batched metric computation\<close>

text \<open>
  \<open>len(instance["query"]) if isinstance(instance["query"], list) else 1\<close>
\<close>

fun num_subqueries :: "sample \<Rightarrow> nat" where
  "num_subqueries inst = (case query inst of StrList qs \<Rightarrow> length qs | _ \<Rightarrow> 1)"

text \<open>
  \<open>[q for sample in self.samples for q in sample["query"]]\<close>: iterating a list yields its
  strings, iterating a \<open>str\<close> yields its characters as strings of length one, and iterating
  a value that is not iterable raises.
\<close>

fun iter_query :: "pyval \<Rightarrow> error + pyval list" where
  "iter_query (StrList qs) = Inr (map Str qs)"
| "iter_query (Str s) = Inr (map (\<lambda>c. Str [c]) s)"
| "iter_query Other = Inl TypeError"

fun all_query_flattened :: "sample list \<Rightarrow> error + pyval list" where
  "all_query_flattened [] = Inr []"
| "all_query_flattened (s # rest) =
     (case iter_query (query s) of
        Inl e \<Rightarrow> Inl e
      | Inr qs \<Rightarrow>
          (case all_query_flattened rest of
             Inl e \<Rightarrow> Inl e
           | Inr qs' \<Rightarrow> Inr (qs @ qs')))"

text \<open>
  The scoring loop of the batched computation, from the running offsets \<open>query_idx\<close>,
  \<open>docs_idx\<close> and the collections built so far. A slice \<open>a[i : i + n]\<close> is
  \<open>take n (drop i a)\<close>, also where it reaches beyond the end of the array.
  \<^verbatim>\<open>
  for instance in self.samples:
      num_subqueries = len(instance["query"]) if isinstance(instance["query"], list) else 1
      query_emb = all_query_embs[query_idx : query_idx + num_subqueries]
      query_idx += num_subqueries
      positive = instance["positive"]
      docs = instance["candidates"]
      num_doc = len(docs)
      docs_emb = all_docs_embs[docs_idx : docs_idx + num_doc]
      docs_idx += num_doc
      fake_qid = str(query_idx)
      results[fake_qid] = self.rerank(query_emb, docs_emb)
      qrels[fake_qid] = {str(i): 1 if doc in positive else 0 for i, doc in enumerate(docs)}
  \<close>
\<close>

fun batched_loop ::
  "('e list \<Rightarrow> 'e list \<Rightarrow> ('s::linorder) tensor) \<Rightarrow> 'e list \<Rightarrow> 'e list \<Rightarrow> nat \<Rightarrow> nat \<Rightarrow>
   's results \<Rightarrow> qrels \<Rightarrow> sample list \<Rightarrow> error + ('s results \<times> qrels)"
where
  "batched_loop similarity_fct all_query_embs all_docs_embs query_idx docs_idx results qrels [] =
     Inr (results, qrels)"
| "batched_loop similarity_fct all_query_embs all_docs_embs query_idx docs_idx results qrels
     (inst # rest) =
     (let query_emb = take (num_subqueries inst) (drop query_idx all_query_embs);
          query_idx' = query_idx + num_subqueries inst;
          docs = candidates inst;
          num_doc = length docs;
          docs_emb = take num_doc (drop docs_idx all_docs_embs);
          docs_idx' = docs_idx + num_doc;
          fake_qid = str query_idx'
      in case rerank similarity_fct query_emb docs_emb of
           Inl e \<Rightarrow> Inl e
         | Inr scores \<Rightarrow>
             batched_loop similarity_fct all_query_embs all_docs_embs query_idx' docs_idx'
               (setitem results fake_qid scores)
               (setitem qrels fake_qid (relevance_judgments (positive inst) docs))
               rest)"

text \<open>
  The encoding step of the batched computation. The first sample decides how the queries
  are collected; \<open>self.samples[0]\<close> raises on an empty sample sequence. The message of the
  \<open>ValueError\<close> goes on to name the type of the query, which the model leaves out.
\<close>

definition encode_all_queries :: "'e model \<Rightarrow> sample list \<Rightarrow> error + 'e list" where
  "encode_all_queries model samples =
     (case samples of
        [] \<Rightarrow> Inl IndexError
      | first # _ \<Rightarrow>
          (case query first of
             Str _ \<Rightarrow> Inr (encode_queries_func_batched model (map query samples))
           | StrList _ \<Rightarrow>
               (case all_query_flattened samples of
                  Inl e \<Rightarrow> Inl e
                | Inr qs \<Rightarrow> Inr (encode_queries_func_batched model qs))
           | Other \<Rightarrow> Inl (ValueError ''Query must be a string or a list of strings'')))"

definition compute_metrics_batched ::
  "'e model \<Rightarrow> ('e list \<Rightarrow> 'e list \<Rightarrow> ('s::linorder) tensor) \<Rightarrow> ('s, 'm) engine \<Rightarrow> nat list \<Rightarrow>
   sample list \<Rightarrow> error + 'm metrics"
where
  "compute_metrics_batched model similarity_fct evaluate k_values samples =
     (case encode_all_queries model samples of
        Inl e \<Rightarrow> Inl e
      | Inr all_query_embs \<Rightarrow>
          (let all_docs = concat (map candidates samples);
               all_docs_embs = encode_corpus_func_batched model (map Str all_docs)
           in case batched_loop similarity_fct all_query_embs all_docs_embs 0 0 [] [] samples of
                Inl e \<Rightarrow> Inl e
              | Inr rq \<Rightarrow> evaluate_and_merge evaluate k_values rq))"

subsection \<open>The individual metric computation\<close>

text \<open>
  The loop of the individual computation, from the position \<open>i\<close> of the next sample, the
  collections built so far and the local variables \<open>query_emb\<close>, \<open>docs_emb\<close>: \<open>None\<close> while
  nothing has been assigned to them, the pair of their values afterwards. They are assigned
  only under \<open>isinstance(query, str)\<close>, and are read in every iteration.
  \<^verbatim>\<open>
  for i, instance in enumerate(tqdm.tqdm(self.samples, desc="Samples")):
      query = instance["query"]
      positive = set(instance["positive"])
      docs = list(instance["candidates"])
      if isinstance(query, str):
          query_emb = np.asarray(encode_queries_func([query], batch_size=self.batch_size))
          docs_emb = np.asarray(encode_corpus_func(docs, batch_size=self.batch_size))
      fake_qid = str(i)
      results[fake_qid] = self.rerank(query_emb, docs_emb)
      qrels[fake_qid] = {str(i): 1 if doc in positive else 0 for i, doc in enumerate(docs)}
  \<close>
\<close>

fun individual_loop ::
  "'e model \<Rightarrow> ('e list \<Rightarrow> 'e list \<Rightarrow> ('s::linorder) tensor) \<Rightarrow> nat \<Rightarrow> ('e list \<times> 'e list) option \<Rightarrow>
   's results \<Rightarrow> qrels \<Rightarrow> sample list \<Rightarrow> error + ('s results \<times> qrels)"
where
  "individual_loop model similarity_fct i embs results qrels [] = Inr (results, qrels)"
| "individual_loop model similarity_fct i embs results qrels (inst # rest) =
     (let docs = candidates inst;
          embs' = (case query inst of
                     Str q \<Rightarrow> Some (encode_queries_func_individual model [Str q],
                                     encode_corpus_func_individual model (map Str docs))
                   | _ \<Rightarrow> embs);
          fake_qid = str i
      in case embs' of
           None \<Rightarrow> Inl UnboundLocalError
         | Some (query_emb, docs_emb) \<Rightarrow>
             (case rerank similarity_fct query_emb docs_emb of
                Inl e \<Rightarrow> Inl e
              | Inr scores \<Rightarrow>
                  individual_loop model similarity_fct (i + 1) embs'
                    (setitem results fake_qid scores)
                    (setitem qrels fake_qid (relevance_judgments (positive inst) docs))
                    rest))"

definition compute_metrics_individual ::
  "'e model \<Rightarrow> ('e list \<Rightarrow> 'e list \<Rightarrow> ('s::linorder) tensor) \<Rightarrow> ('s, 'm) engine \<Rightarrow> nat list \<Rightarrow>
   sample list \<Rightarrow> error + 'm metrics"
where
  "compute_metrics_individual model similarity_fct evaluate k_values samples =
     (case individual_loop model similarity_fct 0 None [] [] samples of
        Inl e \<Rightarrow> Inl e
      | Inr rq \<Rightarrow> evaluate_and_merge evaluate k_values rq)"

subsection \<open>The evaluator entry point\<close>

text \<open>
  Modelled from the spec: the evaluator's entry point, \<open>__call__\<close> of the base class
  \<open>RerankingEvaluator\<close>, which is not among the sources. As specified it checks that the
  sample set is not empty, failing with InvalidInput (a \<open>ValueError\<close>) otherwise, and then
  dispatches on the configuration flag \<open>use_batched_encoding\<close>.
\<close>

definition evaluator_call ::
  "bool \<Rightarrow> 'e model \<Rightarrow> ('e list \<Rightarrow> 'e list \<Rightarrow> ('s::linorder) tensor) \<Rightarrow> ('s, 'm) engine \<Rightarrow> nat list \<Rightarrow>
   sample list \<Rightarrow> error + 'm metrics"
where
  "evaluator_call use_batched_encoding model similarity_fct evaluate k_values samples =
     (if samples = [] then Inl (ValueError ''Empty sample set'')
      else if use_batched_encoding
        then compute_metrics_batched model similarity_fct evaluate k_values samples
        else compute_metrics_individual model similarity_fct evaluate k_values samples)"

subsection \<open>Concrete collaborators, for running the evaluator on data\<close>

text \<open>
  An encoder that embeds a text as its length, a similarity function that multiplies, and
  an engine that reports under every metric name the number of candidates judged relevant
  whose score is positive, pairing judgments and scores sample by sample.
\<close>

fun text_length :: "pyval \<Rightarrow> int" where
  "text_length (Str s) = int (length s)"
| "text_length (StrList qs) = int (length qs)"
| "text_length Other = 0"

definition length_model :: "int model" where
  "length_model = Encoder (map text_length) None None"

definition product_similarity :: "int list \<Rightarrow> int list \<Rightarrow> int tensor" where
  "product_similarity = pairwise (\<lambda>q d. q * d)"

definition relevant_scored :: "(string, nat) dict \<Rightarrow> (string, int) dict \<Rightarrow> nat" where
  "relevant_scored judgments scores =
     sum_list (map2 (\<lambda>label score. if 0 < score then label else 0) (map snd judgments) (map snd scores))"

definition counting_engine :: "(int, nat) engine" where
  "counting_engine qrels results k_values =
     (let total = sum_list (map2 relevant_scored (map snd qrels) (map snd results))
      in Inr (map (\<lambda>k. (''NDCG@'' @ str k, total)) k_values,
              map (\<lambda>k. (''MAP@'' @ str k, total)) k_values,
              map (\<lambda>k. (''Recall@'' @ str k, total)) k_values,
              map (\<lambda>k. (''P@'' @ str k, total)) k_values))"

text \<open>
  An engine that looks at the identifiers. From the scores of a sample it leaves out the
  candidate whose identifier is the sample's own identifier; it then reports under every
  metric name the number of candidates that are judged relevant and are left with a
  positive score, looking the scores of a sample and of a candidate up by identifier. The
  evaluator draws the identifiers of the samples and those of the candidates from the same
  strings, the decimal numbers from 0.
\<close>

definition drop_own_identifier :: "string \<Rightarrow> (string, 's) dict \<Rightarrow> (string, 's) dict" where
  "drop_own_identifier qid scores = filter (\<lambda>(pid, score). pid \<noteq> qid) scores"

definition relevant_retrieved :: "(string, nat) dict \<Rightarrow> (string, int) dict \<Rightarrow> nat" where
  "relevant_retrieved judgments scores =
     sum_list (map (\<lambda>(pid, label).
                 case map_of scores pid of
                   Some score \<Rightarrow> if 0 < score then label else 0
                 | None \<Rightarrow> 0) judgments)"

definition own_identifier_engine :: "(int, nat) engine" where
  "own_identifier_engine qrels results k_values =
     (let total = sum_list (map (\<lambda>(qid, judgments).
                     case map_of results qid of
                       Some scores \<Rightarrow> relevant_retrieved judgments (drop_own_identifier qid scores)
                     | None \<Rightarrow> 0) qrels)
      in Inr (map (\<lambda>k. (''NDCG@'' @ str k, total)) k_values,
              map (\<lambda>k. (''MAP@'' @ str k, total)) k_values,
              map (\<lambda>k. (''Recall@'' @ str k, total)) k_values,
              map (\<lambda>k. (''P@'' @ str k, total)) k_values))"

text \<open>
  A model that is no \<open>EncoderWithQueryCorpusEncode\<close> and has an attribute \<open>encode_queries\<close>
  but none named \<open>encode_corpus\<close>: \<open>encode\<close> embeds a text as its length, \<open>encode_queries\<close> as
  the negated length.
\<close>

definition negating_queries_model :: "int model" where
  "negating_queries_model =
     Encoder (map text_length) (Some (map (\<lambda>v. - text_length v))) None"

subsection \<open>Notions used in the statements\<close>

text \<open>
  The values the running query offset takes after each sample of the batched loop; the
  loop uses them, as strings, as the synthetic identifiers.
\<close>

fun query_offsets :: "nat \<Rightarrow> sample list \<Rightarrow> nat list" where
  "query_offsets query_idx [] = []"
| "query_offsets query_idx (inst # rest) =
     (query_idx + num_subqueries inst) # query_offsets (query_idx + num_subqueries inst) rest"

text \<open>The relevance judgments of a sample.\<close>

definition judgments_of :: "sample \<Rightarrow> (string, nat) dict" where
  "judgments_of inst = relevance_judgments (positive inst) (candidates inst)"

text \<open>\<open>isinstance(v, str)\<close>\<close>

fun is_str :: "pyval \<Rightarrow> bool" where
  "is_str (Str s) = True"
| "is_str v = False"

text \<open>Samples for running the evaluator on data.\<close>

definition sample_abc :: sample where
  "sample_abc = \<lparr>query = Str ''q'', positive = [''b''], candidates = [''a'', ''b'', ''c'']\<rparr>"

definition sample_cat :: sample where
  "sample_cat =
     \<lparr>query = Str ''cat'', positive = [''cat food''], candidates = [''cat food'', ''dog toy'']\<rparr>"

definition sample_variants :: sample where
  "sample_variants =
     \<lparr>query = StrList [''cat'', ''feline''], positive = [''dog toy''],
      candidates = [''dog toy'', ''cat food'', ''fish'']\<rparr>"

section \<open>Properties\<close>

subsection \<open>Decimal strings\<close>

lemma digit_val_digit_char: "d < 10 \<Longrightarrow> digit_val (digit_char d) = d"
  by (simp add: digit_val_def digit_char_def)

lemma parse_nat_snoc: "parse_nat (s @ [c]) = 10 * parse_nat s + digit_val c"
  by (simp add: parse_nat_def)

lemma parse_nat_str: "parse_nat (str n) = n"
proof (induction n rule: str.induct)
  case (1 n)
  show ?case
  proof (cases "n < 10")
    case True
    then show ?thesis
      by (subst str.simps) (simp add: parse_nat_def digit_val_digit_char)
  next
    case False
    with "1" have "parse_nat (str (n div 10)) = n div 10" by simp
    with False show ?thesis
      by (subst str.simps) (simp add: parse_nat_snoc digit_val_digit_char)
  qed
qed

lemma str_inject: "str m = str n \<longleftrightarrow> m = n"
  by (metis parse_nat_str)

lemma inj_str: "inj str"
  by (simp add: inj_on_def str_inject)

subsection \<open>Dictionaries\<close>

lemma setitem_fresh: "k \<notin> set (map fst d) \<Longrightarrow> setitem d k v = d @ [(k, v)]"
  by (induction d) auto

lemma foldl_setitem_fresh:
  "distinct (map fst (acc @ kvs)) \<Longrightarrow>
   foldl (\<lambda>d (k, v). setitem d k v) acc kvs = acc @ kvs"
proof (induction kvs arbitrary: acc)
  case Nil
  then show ?case by simp
next
  case (Cons kv kvs)
  obtain k v where kv: "kv = (k, v)" by (cases kv)
  from Cons.prems have fresh: "k \<notin> set (map fst acc)" by (auto simp: kv)
  from Cons.prems have "distinct (map fst ((acc @ [(k, v)]) @ kvs))" by (simp add: kv)
  then have "foldl (\<lambda>d (k, v). setitem d k v) (acc @ [(k, v)]) kvs = (acc @ [(k, v)]) @ kvs"
    by (rule Cons.IH)
  with fresh show ?case by (simp add: kv setitem_fresh)
qed

lemma dict_of_items_distinct: "distinct (map fst kvs) \<Longrightarrow> dict_of_items kvs = kvs"
  using foldl_setitem_fresh [of "[]" kvs] by (simp add: dict_of_items_def)

subsection \<open>Score maps and column maxima\<close>

lemma distinct_str_upt: "distinct (map str [m..<n])"
  by (simp add: distinct_map inj_on_def str_inject)

lemma score_map_eq:
  "dict_of_items (map (\<lambda>(i, score). (str i, score)) (enumerate 0 v)) =
   zip (map str [0..<length v]) v"
proof -
  have "map (\<lambda>(i, score). (str i, score)) (enumerate 0 v) = zip (map str [0..<length v]) v"
    by (simp add: enumerate_eq_zip zip_map1)
  then show ?thesis
    by (simp add: dict_of_items_distinct distinct_str_upt)
qed

lemma getitem_score_map:
  "j < length v \<Longrightarrow> getitem (zip (map str [0..<length v]) v) (str j) = Some (v ! j)"
  using map_of_zip_nth [of "map str [0..<length v]" v j]
  by (simp add: getitem_def distinct_str_upt)

lemma keys_score_map: "keys (zip (map str [0..<length v]) v) = map str [0..<length v]"
  by (simp add: keys_def)

lemma foldl_map2_max_length:
  "\<forall>row\<in>set rs. length row = length r \<Longrightarrow>
   length (foldl (\<lambda>acc row. map2 max acc row) r rs) = length r"
  by (induction rs arbitrary: r) auto

lemma foldl_map2_max_nth:
  "\<forall>row\<in>set rs. length row = length r \<Longrightarrow> j < length r \<Longrightarrow>
   foldl (\<lambda>acc row. map2 max acc row) r rs ! j =
     fold max (map (\<lambda>row. row ! j) rs) ((r :: ('s::linorder) list) ! j)"
proof (induction rs arbitrary: r)
  case Nil
  then show ?case by simp
next
  case (Cons a rs)
  from Cons.prems have len: "length (map2 max r a) = length r" by simp
  with Cons.prems have "\<forall>row\<in>set rs. length row = length (map2 max r a)" by simp
  moreover from Cons.prems len have "j < length (map2 max r a)" by simp
  ultimately have "foldl (\<lambda>acc row. map2 max acc row) (map2 max r a) rs ! j =
      fold max (map (\<lambda>row. row ! j) rs) (map2 max r a ! j)"
    by (rule Cons.IH)
  moreover have "max (r ! j) (a ! j) = max (a ! j) (r ! j)"
    by (rule max.commute)
  with Cons.prems have "map2 max r a ! j = max (a ! j) (r ! j)"
    by simp
  ultimately show ?case by simp
qed

lemma amax_column:
  assumes "\<forall>row\<in>set rs. length row = length r" and "j < length r"
  shows "foldl (\<lambda>acc row. map2 max acc row) r rs ! j = Max ((\<lambda>row. row ! j) ` set (r # rs))"
proof -
  have "Max ((\<lambda>row. row ! j) ` set (r # rs)) = Max (set (r ! j # map (\<lambda>row. row ! j) rs))"
    by simp
  also have "\<dots> = fold max (map (\<lambda>row. row ! j) rs) (r ! j)"
    by (rule Max.set_eq_fold)
  finally show ?thesis using assms by (simp add: foldl_map2_max_nth)
qed

text \<open>The column maxima of a matrix with at least one row and C entries in every row.\<close>

lemma amax_dim0_shape:
  assumes "rows \<noteq> []" and "list_all (\<lambda>row. length row = C) rows"
  shows "\<exists>v. amax_dim0 rows = Inr v \<and> length v = C \<and>
             (\<forall>j<C. v ! j = Max ((\<lambda>row. row ! j) ` set rows))"
proof -
  from assms(1) obtain r rs where rows: "rows = r # rs" by (cases rows) auto
  with assms(2) have r: "length r = C" and rs: "\<forall>row\<in>set rs. length row = length r"
    by (auto simp: list_all_iff)
  have "amax_dim0 rows = Inr (foldl (\<lambda>acc row. map2 max acc row) r rs)"
    by (simp add: rows amax_dim0_def)
  moreover have "length (foldl (\<lambda>acc row. map2 max acc row) r rs) = C"
    using rs r by (simp add: foldl_map2_max_length)
  moreover have "\<forall>j<C. foldl (\<lambda>acc row. map2 max acc row) r rs ! j = Max ((\<lambda>row. row ! j) ` set rows)"
    using rs r by (simp add: amax_column rows)
  ultimately show ?thesis by simp
qed

lemma rerank_scores:
  assumes "query_emb \<noteq> []" and "docs_emb \<noteq> []"
    and "(case similarity_fct query_emb docs_emb of Mat rows \<Rightarrow> amax_dim0 rows | Vec v \<Rightarrow> Inr v) = Inr v"
  shows "rerank similarity_fct query_emb docs_emb = Inr (zip (map str [0..<length v]) v)"
  using assms by (simp add: rerank_def score_map_eq)

lemma rerank_pairwise:
  assumes Q: "query_emb \<noteq> []" and D: "docs_emb \<noteq> []"
    and sim: "similarity_fct query_emb docs_emb = pairwise sim query_emb docs_emb"
  shows "\<exists>v. rerank similarity_fct query_emb docs_emb = Inr (zip (map str [0..<length docs_emb]) v) \<and>
             length v = length docs_emb \<and>
             (\<forall>j<length docs_emb. v ! j = Max ((\<lambda>q. sim q (docs_emb ! j)) ` set query_emb))"
proof -
  let ?rows = "map (\<lambda>q. map (\<lambda>d. sim q d) docs_emb) query_emb"
  have "?rows \<noteq> []" using Q by simp
  moreover have "list_all (\<lambda>row. length row = length docs_emb) ?rows"
    by (simp add: list_all_iff)
  ultimately obtain v where v: "amax_dim0 ?rows = Inr v" "length v = length docs_emb"
      "\<forall>j<length docs_emb. v ! j = Max ((\<lambda>row. row ! j) ` set ?rows)"
    using amax_dim0_shape by blast
  have "rerank similarity_fct query_emb docs_emb = Inr (zip (map str [0..<length v]) v)"
    using Q D v(1) by (intro rerank_scores) (simp_all add: sim pairwise_def)
  moreover have "\<forall>j<length docs_emb. v ! j = Max ((\<lambda>q. sim q (docs_emb ! j)) ` set query_emb)"
  proof (intro allI impI)
    fix j assume j: "j < length docs_emb"
    have "(\<lambda>row. row ! j) ` set ?rows = (\<lambda>q. sim q (docs_emb ! j)) ` set query_emb"
      using j by (auto simp: image_iff)
    with v(3) j show "v ! j = Max ((\<lambda>q. sim q (docs_emb ! j)) ` set query_emb)" by simp
  qed
  ultimately show ?thesis using v(2) by auto
qed

subsection \<open>The rerank scorer\<close>

text \<open>
  C5. Whatever the candidate embedding block is (any number of rows, none included), the
  rerank scorer fails with ValueError, the specification's InvalidInput, when the query
  embedding block has no rows.
\<close>

theorem rerank_empty_query_raises:
  "rerank similarity_fct [] docs_emb = Inl (ValueError ''Empty query embedding'')"
  by (simp add: rerank_def)

text \<open>
  C6. With at least one query row and a candidate embedding block of no rows, the rerank
  scorer returns the empty score map and raises nothing.
\<close>

theorem rerank_no_candidates:
  "1 \<le> length query_emb \<Longrightarrow> rerank similarity_fct query_emb [] = Inr []"
  by (auto simp: rerank_def)

theorem rerank_no_candidates_witness:
  "1 \<le> length [3, 5 :: int] \<and>
   rerank (\<lambda>Q D. Mat (map (\<lambda>q. map (\<lambda>d. q * d) D) Q) :: int tensor) [3, 5] [] = Inr []"
  using rerank_no_candidates [of "[3, 5]" "\<lambda>Q D. Mat (map (\<lambda>q. map (\<lambda>d. q * d) D) Q)"]
  by simp

text \<open>
  C2. With more than one query row and at least one candidate row, and a similarity function
  that returns the matrix of pairwise similarities on these blocks, the score stored under
  candidate index \<open>j\<close> is the maximum, over the query rows, of the similarity between that
  row and candidate \<open>j\<close>: a maximum, neither an average nor a sum.
\<close>

theorem rerank_max_over_variants:
  assumes "1 < length query_emb" and "1 \<le> length docs_emb"
    and "similarity_fct query_emb docs_emb = pairwise sim query_emb docs_emb"
    and "j < length docs_emb"
  shows "\<exists>scores. rerank similarity_fct query_emb docs_emb = Inr scores \<and>
           getitem scores (str j) = Some (Max ((\<lambda>q. sim q (docs_emb ! j)) ` set query_emb))"
proof -
  from assms(1,2) have "query_emb \<noteq> []" and "docs_emb \<noteq> []" by auto
  with assms(3) obtain v where
      "rerank similarity_fct query_emb docs_emb = Inr (zip (map str [0..<length docs_emb]) v)"
      "length v = length docs_emb"
      "\<forall>j<length docs_emb. v ! j = Max ((\<lambda>q. sim q (docs_emb ! j)) ` set query_emb)"
    using rerank_pairwise by blast
  with assms(4) show ?thesis
    using getitem_score_map [of j v] by simp
qed

theorem rerank_max_over_variants_witness:
  "1 < length [3, 5, - 2 :: int] \<and> 1 \<le> length [1, - 1, 2 :: int] \<and>
   pairwise (\<lambda>q d. q * d) [3, 5, - 2] [1, - 1, 2 :: int] = pairwise (\<lambda>q d. q * d) [3, 5, - 2] [1, - 1, 2] \<and>
   (1::nat) < length [1, - 1, 2 :: int] \<and>
   (\<exists>scores. rerank (pairwise (\<lambda>q d. q * d)) [3, 5, - 2] [1, - 1, 2 :: int] = Inr scores \<and>
      getitem scores (str 1) = Some (Max ((\<lambda>q. q * ([1, - 1, 2] ! 1)) ` set [3, 5, - 2]))) \<and>
   rerank (pairwise (\<lambda>q d. q * d)) [3, 5, - 2] [1, - 1, 2 :: int] =
     Inr [(''0'', 5), (''1'', 2), (''2'', 10)]"
proof -
  have v: "rerank (pairwise (\<lambda>q d. q * d)) [3, 5, - 2] [1, - 1, 2 :: int] =
     Inr [(''0'', 5), (''1'', 2), (''2'', 10)]"
    by code_simp
  have "1 < length [3, 5, - 2 :: int]" and "1 \<le> length [1, - 1, 2 :: int]"
    and "(1::nat) < length [1, - 1, 2 :: int]"
    by simp_all
  then have "\<exists>scores. rerank (pairwise (\<lambda>q d. q * d)) [3, 5, - 2] [1, - 1, 2 :: int] = Inr scores \<and>
      getitem scores (str 1) = Some (Max ((\<lambda>q. q * ([1, - 1, 2] ! 1)) ` set [3, 5, - 2]))"
    by (intro rerank_max_over_variants) simp_all
  with v show ?thesis by simp
qed

text \<open>
  C7. With at least one query row and at least one candidate row, and a similarity result
  of the shape its interface promises, the score map has exactly one entry per candidate;
  its keys are the strings of \<open>0\<close> to \<open>C - 1\<close> in order, without gap or duplicate. Its
  values have the scalar type of the tensor's entries: they are scores, not tensors.
\<close>

theorem rerank_score_map_keys:
  assumes "1 \<le> length query_emb" and "1 \<le> length docs_emb"
    and "has_shape (similarity_fct query_emb docs_emb) (length query_emb) (length docs_emb)"
  shows "\<exists>scores :: (string, 's::linorder) dict.
           rerank similarity_fct query_emb docs_emb = Inr scores \<and>
           length scores = length docs_emb \<and>
           keys scores = map str [0..<length docs_emb] \<and>
           distinct (keys scores)"
proof -
  from assms(1,2) have Q: "query_emb \<noteq> []" and D: "docs_emb \<noteq> []" by auto
  have "\<exists>v. (case similarity_fct query_emb docs_emb of Mat rows \<Rightarrow> amax_dim0 rows | Vec v \<Rightarrow> Inr v) = Inr v
            \<and> length v = length docs_emb"
  proof (cases "similarity_fct query_emb docs_emb")
    case (Vec v)
    with assms(3) show ?thesis by (simp add: has_shape_def)
  next
    case (Mat rows)
    with assms(3) Q have "rows \<noteq> []" and "list_all (\<lambda>row. length row = length docs_emb) rows"
      by (auto simp: has_shape_def)
    then show ?thesis using amax_dim0_shape [of rows "length docs_emb"] Mat by auto
  qed
  then obtain v where
      v: "(case similarity_fct query_emb docs_emb of Mat rows \<Rightarrow> amax_dim0 rows | Vec v \<Rightarrow> Inr v) = Inr v"
      and len: "length v = length docs_emb"
    by blast
  from Q D v have "rerank similarity_fct query_emb docs_emb = Inr (zip (map str [0..<length v]) v)"
    by (rule rerank_scores)
  with len show ?thesis
    by (simp add: keys_def distinct_str_upt)
qed

theorem rerank_score_map_keys_witness:
  "1 \<le> length [3, 5, - 2 :: int] \<and> 1 \<le> length [1, - 1, 2 :: int] \<and>
   has_shape (pairwise (\<lambda>q d. q * d) [3, 5, - 2] [1, - 1, 2 :: int]) (length [3, 5, - 2 :: int]) (length [1, - 1, 2 :: int]) \<and>
   (\<exists>scores :: (string, int) dict.
      rerank (pairwise (\<lambda>q d. q * d)) [3, 5, - 2] [1, - 1, 2 :: int] = Inr scores \<and>
      length scores = length [1, - 1, 2 :: int] \<and>
      keys scores = map str [0..<length [1, - 1, 2 :: int]] \<and>
      distinct (keys scores))"
proof -
  have h: "has_shape (pairwise (\<lambda>q d. q * d) [3, 5, - 2] [1, - 1, 2 :: int]) (length [3, 5, - 2 :: int]) (length [1, - 1, 2 :: int])"
    by (simp add: has_shape_def pairwise_def)
  show ?thesis
    using h rerank_score_map_keys [of "[3, 5, - 2 :: int]" "[1, - 1, 2 :: int]" "pairwise (\<lambda>q d. q * d)"]
    by simp
qed

text \<open>
  C10. With exactly one query row and at least one candidate row, the score stored under
  candidate index \<open>j\<close> is the similarity between the single query embedding and candidate
  \<open>j\<close>. The column maximum is taken of every two-dimensional result, also of a matrix of one
  row, where it returns that row.
\<close>

theorem rerank_single_query:
  assumes "length query_emb = 1" and "1 \<le> length docs_emb"
    and "similarity_fct query_emb docs_emb = pairwise sim query_emb docs_emb"
    and "j < length docs_emb"
  shows "(\<exists>scores. rerank similarity_fct query_emb docs_emb = Inr scores \<and>
            getitem scores (str j) = Some (sim (query_emb ! 0) (docs_emb ! j))) \<and>
         amax_dim0 [map (\<lambda>d. sim (query_emb ! 0) d) docs_emb] =
           Inr (map (\<lambda>d. sim (query_emb ! 0) d) docs_emb)"
proof
  from assms(1) obtain q where q: "query_emb = [q]" by (cases query_emb) auto
  from assms(2) have D: "docs_emb \<noteq> []" by auto
  have "(case similarity_fct query_emb docs_emb of Mat rows \<Rightarrow> amax_dim0 rows | Vec v \<Rightarrow> Inr v) =
        Inr (map (\<lambda>d. sim q d) docs_emb)"
    using assms(3) by (simp add: pairwise_def q amax_dim0_def)
  with D have "rerank similarity_fct query_emb docs_emb =
      Inr (zip (map str [0..<length (map (\<lambda>d. sim q d) docs_emb)]) (map (\<lambda>d. sim q d) docs_emb))"
    by (intro rerank_scores) (simp_all add: q)
  with assms(4) show "\<exists>scores. rerank similarity_fct query_emb docs_emb = Inr scores \<and>
            getitem scores (str j) = Some (sim (query_emb ! 0) (docs_emb ! j))"
    using getitem_score_map [of j "map (\<lambda>d. sim q d) docs_emb"] by (simp add: q)
next
  show "amax_dim0 [map (\<lambda>d. sim (query_emb ! 0) d) docs_emb] =
           Inr (map (\<lambda>d. sim (query_emb ! 0) d) docs_emb)"
    by (simp add: amax_dim0_def)
qed

theorem rerank_single_query_witness:
  "length [5 :: int] = 1 \<and> 1 \<le> length [1, - 1, 2 :: int] \<and>
   pairwise (\<lambda>q d. q * d) [5] [1, - 1, 2 :: int] = pairwise (\<lambda>q d. q * d) [5] [1, - 1, 2] \<and>
   (2::nat) < length [1, - 1, 2 :: int] \<and>
   (\<exists>scores. rerank (pairwise (\<lambda>q d. q * d)) [5] [1, - 1, 2 :: int] = Inr scores \<and>
      getitem scores (str 2) = Some (([5] ! 0) * ([1, - 1, 2] ! 2))) \<and>
   rerank (pairwise (\<lambda>q d. q * d)) [5] [1, - 1, 2 :: int] =
     Inr [(''0'', 5), (''1'', - 5), (''2'', 10)]"
proof -
  have v: "rerank (pairwise (\<lambda>q d. q * d)) [5] [1, - 1, 2 :: int] =
     Inr [(''0'', 5), (''1'', - 5), (''2'', 10)]"
    by code_simp
  from v show ?thesis
    using rerank_single_query [of "[5 :: int]" "[1, - 1, 2 :: int]"
      "pairwise (\<lambda>q d. q * d)" "\<lambda>q d. q * d" 2]
    by simp
qed

subsection \<open>The two loops\<close>

lemma relevance_judgments_eq:
  "relevance_judgments pos docs =
   zip (map str [0..<length docs]) (map (\<lambda>doc. if doc \<in> set pos then 1 else 0) docs)"
proof -
  have "map (\<lambda>(i, doc). (str i, if doc \<in> set pos then 1 else (0::nat))) (enumerate 0 docs) =
        zip (map str [0..<length docs]) (map (\<lambda>doc. if doc \<in> set pos then 1 else 0) docs)"
    by (simp add: enumerate_eq_zip zip_map1 zip_map2 case_prod_unfold)
  then show ?thesis
    by (simp add: relevance_judgments_def dict_of_items_distinct distinct_str_upt)
qed

lemma getitem_relevance_judgments:
  assumes "i < length docs"
  shows "getitem (relevance_judgments pos docs) (str i) = Some (if docs ! i \<in> set pos then 1 else 0)"
  using assms getitem_score_map [of i "map (\<lambda>doc. if doc \<in> set pos then 1 else 0) docs"]
  by (simp add: relevance_judgments_eq)

lemma rerank_Inr_nonempty: "rerank similarity_fct query_emb docs_emb = Inr scores \<Longrightarrow> query_emb \<noteq> []"
  by (auto simp: rerank_def split: if_splits)

lemma setitem_new:
  assumes "set (keys d) \<subseteq> str ` {..n}" and "n < m"
  shows "setitem d (str m) v = d @ [(str m, v)]"
proof -
  have "str m \<notin> set (map fst d)"
  proof
    assume "str m \<in> set (map fst d)"
    with assms(1) obtain k where "k \<le> n" and "str m = str k" by (auto simp: keys_def)
    with assms(2) show False by (simp add: str_inject)
  qed
  then show ?thesis by (rule setitem_fresh)
qed

lemma keys_snoc_bound:
  assumes "set (keys d) \<subseteq> str ` {..n}" and "n \<le> m"
  shows "set (keys (d @ [(str m, v)])) \<subseteq> str ` {..m}"
  using assms by (auto simp: keys_def)

lemma batched_loop_structure:
  assumes "batched_loop similarity_fct all_q all_d query_idx docs_idx results qrels samples =
             Inr (results', qrels')"
    and "set (keys results) \<subseteq> str ` {..query_idx}"
    and "set (keys qrels) \<subseteq> str ` {..query_idx}"
  shows "keys results' = keys results @ map str (query_offsets query_idx samples) \<and>
         keys qrels' = keys qrels @ map str (query_offsets query_idx samples) \<and>
         map snd qrels' = map snd qrels @ map judgments_of samples \<and>
         (\<forall>inst\<in>set samples. 1 \<le> num_subqueries inst)"
  using assms
proof (induction samples arbitrary: query_idx docs_idx results qrels)
  case Nil
  then show ?case by simp
next
  case (Cons inst rest)
  let ?n = "num_subqueries inst"
  let ?q = "take ?n (drop query_idx all_q)"
  let ?d = "take (length (candidates inst)) (drop docs_idx all_d)"
  let ?id = "str (query_idx + ?n)"
  let ?j = "relevance_judgments (positive inst) (candidates inst)"
  from Cons.prems(1) obtain scores where
      sc: "rerank similarity_fct ?q ?d = Inr scores"
    and rest: "batched_loop similarity_fct all_q all_d (query_idx + ?n)
                 (docs_idx + length (candidates inst))
                 (setitem results ?id scores) (setitem qrels ?id ?j) rest = Inr (results', qrels')"
    by (auto simp: Let_def split: sum.splits)
  from sc have "?q \<noteq> []" by (rule rerank_Inr_nonempty)
  then have n: "1 \<le> ?n" by (cases "?n") auto
  then have lt: "query_idx < query_idx + ?n" by simp
  have r: "setitem results ?id scores = results @ [(?id, scores)]"
    using Cons.prems(2) lt by (rule setitem_new)
  have q: "setitem qrels ?id ?j = qrels @ [(?id, ?j)]"
    using Cons.prems(3) lt by (rule setitem_new)
  have rb: "set (keys (results @ [(?id, scores)])) \<subseteq> str ` {..query_idx + ?n}"
    using Cons.prems(2) by (rule keys_snoc_bound) simp
  have qb: "set (keys (qrels @ [(?id, ?j)])) \<subseteq> str ` {..query_idx + ?n}"
    using Cons.prems(3) by (rule keys_snoc_bound) simp
  from rest have "batched_loop similarity_fct all_q all_d (query_idx + ?n)
                 (docs_idx + length (candidates inst))
                 (results @ [(?id, scores)]) (qrels @ [(?id, ?j)]) rest = Inr (results', qrels')"
    by (simp only: r q)
  from Cons.IH [OF this rb qb] n show ?case
    by (simp add: keys_def judgments_of_def)
qed

lemma query_offsets_greater:
  "\<forall>inst\<in>set samples. 1 \<le> num_subqueries inst \<Longrightarrow>
   \<forall>k\<in>set (query_offsets query_idx samples). query_idx < k"
proof (induction samples arbitrary: query_idx)
  case Nil
  then show ?case by simp
next
  case (Cons inst rest)
  from Cons.prems have n: "1 \<le> num_subqueries inst"
    and r: "\<forall>inst\<in>set rest. 1 \<le> num_subqueries inst" by simp_all
  from Cons.IH [OF r, of "query_idx + num_subqueries inst"] n show ?case
    by auto
qed

lemma distinct_query_offsets:
  "\<forall>inst\<in>set samples. 1 \<le> num_subqueries inst \<Longrightarrow> distinct (query_offsets query_idx samples)"
proof (induction samples arbitrary: query_idx)
  case Nil
  then show ?case by simp
next
  case (Cons inst rest)
  from Cons.prems have r: "\<forall>inst\<in>set rest. 1 \<le> num_subqueries inst" by simp
  from query_offsets_greater [OF r, of "query_idx + num_subqueries inst"]
  have "query_idx + num_subqueries inst \<notin> set (query_offsets (query_idx + num_subqueries inst) rest)"
    by auto
  with Cons.IH [OF r] show ?case by simp
qed

lemma length_query_offsets: "length (query_offsets query_idx samples) = length samples"
  by (induction samples arbitrary: query_idx) auto

lemma distinct_map_str: "distinct (map str ns) = distinct ns"
  by (simp add: distinct_map inj_on_def str_inject)

lemma setitem_new_lt:
  assumes "set (keys d) \<subseteq> str ` {..<i}"
  shows "setitem d (str i) v = d @ [(str i, v)]"
proof -
  have "str i \<notin> set (map fst d)"
  proof
    assume "str i \<in> set (map fst d)"
    with assms obtain k where "k < i" and "str i = str k" by (auto simp: keys_def)
    then show False by (simp add: str_inject)
  qed
  then show ?thesis by (rule setitem_fresh)
qed

lemma keys_snoc_bound_lt:
  assumes "set (keys d) \<subseteq> str ` {..<i}"
  shows "set (keys (d @ [(str i, v)])) \<subseteq> str ` {..<Suc i}"
  using assms by (auto simp: keys_def lessThan_Suc)

lemma individual_loop_structure:
  assumes "individual_loop model similarity_fct i embs results qrels samples = Inr (results', qrels')"
    and "set (keys results) \<subseteq> str ` {..<i}"
    and "set (keys qrels) \<subseteq> str ` {..<i}"
  shows "keys results' = keys results @ map str [i..<i + length samples] \<and>
         keys qrels' = keys qrels @ map str [i..<i + length samples] \<and>
         map snd qrels' = map snd qrels @ map judgments_of samples"
  using assms
proof (induction samples arbitrary: i embs results qrels)
  case Nil
  then show ?case by simp
next
  case (Cons inst rest)
  let ?j = "relevance_judgments (positive inst) (candidates inst)"
  from Cons.prems(1) obtain embs' scores where
      rest: "individual_loop model similarity_fct (Suc i) embs'
               (setitem results (str i) scores) (setitem qrels (str i) ?j) rest = Inr (results', qrels')"
    by (auto simp: Let_def split: sum.splits option.splits)
  have r: "setitem results (str i) scores = results @ [(str i, scores)]"
    using Cons.prems(2) by (rule setitem_new_lt)
  have q: "setitem qrels (str i) ?j = qrels @ [(str i, ?j)]"
    using Cons.prems(3) by (rule setitem_new_lt)
  have rb: "set (keys (results @ [(str i, scores)])) \<subseteq> str ` {..<Suc i}"
    using Cons.prems(2) by (rule keys_snoc_bound_lt)
  have qb: "set (keys (qrels @ [(str i, ?j)])) \<subseteq> str ` {..<Suc i}"
    using Cons.prems(3) by (rule keys_snoc_bound_lt)
  from rest have "individual_loop model similarity_fct (Suc i) embs'
               (results @ [(str i, scores)]) (qrels @ [(str i, ?j)]) rest = Inr (results', qrels')"
    by (simp only: r q)
  moreover have "[i..<i + length (inst # rest)] = i # [Suc i..<Suc i + length rest]"
    by (simp add: upt_conv_Cons del: upt_Suc)
  ultimately show ?case
    using Cons.IH [OF _ rb qb] by (simp add: keys_def judgments_of_def del: upt_Suc)
qed

lemma is_str_num_subqueries: "is_str (query inst) \<Longrightarrow> num_subqueries inst = 1"
  by (cases "query inst") auto

lemma strategies_simulate:
  assumes "\<forall>inst\<in>set samples. is_str (query inst)"
    and "\<And>xs. encode_queries_func_individual model xs = map fq xs"
    and "\<And>xs. encode_corpus_func_individual model xs = map fc xs"
    and "drop query_idx all_q = map fq (map query samples)"
    and "drop docs_idx all_d = map fc (map Str (concat (map candidates samples)))"
    and "set (keys rb) \<subseteq> str ` {..query_idx}" and "set (keys qb) \<subseteq> str ` {..query_idx}"
    and "set (keys ri) \<subseteq> str ` {..<i}" and "set (keys qi) \<subseteq> str ` {..<i}"
    and "map snd rb = map snd ri" and "map snd qb = map snd qi"
  shows "(\<exists>e. batched_loop similarity_fct all_q all_d query_idx docs_idx rb qb samples = Inl e \<and>
              individual_loop model similarity_fct i embs ri qi samples = Inl e) \<or>
         (\<exists>rb' qb' ri' qi'.
              batched_loop similarity_fct all_q all_d query_idx docs_idx rb qb samples = Inr (rb', qb') \<and>
              individual_loop model similarity_fct i embs ri qi samples = Inr (ri', qi') \<and>
              map snd rb' = map snd ri' \<and> map snd qb' = map snd qi')"
  using assms
proof (induction samples arbitrary: query_idx docs_idx rb qb i embs ri qi)
  case Nil
  then show ?case by simp
next
  case (Cons inst rest)
  let ?docs = "candidates inst"
  let ?j = "relevance_judgments (positive inst) ?docs"
  note enc_q = Cons.prems(2) and enc_c = Cons.prems(3)
  from Cons.prems(1) obtain q where q: "query inst = Str q" by (cases "query inst") auto
  then have n: "num_subqueries inst = 1" by simp
  from Cons.prems(4) have "take 1 (drop query_idx all_q) = take 1 (map fq (map query (inst # rest)))"
    by simp
  then have qe: "take (num_subqueries inst) (drop query_idx all_q) = [fq (Str q)]"
    by (simp add: n q)
  from Cons.prems(5) have "take (length ?docs) (drop docs_idx all_d) =
      take (length ?docs) (map fc (map Str (concat (map candidates (inst # rest)))))"
    by simp
  then have de: "take (length ?docs) (drop docs_idx all_d) = map fc (map Str ?docs)"
    by simp
  have dq': "drop (query_idx + 1) all_q = map fq (map query rest)"
  proof -
    have "drop (query_idx + 1) all_q = drop 1 (drop query_idx all_q)" by (simp add: add.commute)
    with Cons.prems(4) show ?thesis by simp
  qed
  have dd': "drop (docs_idx + length ?docs) all_d = map fc (map Str (concat (map candidates rest)))"
  proof -
    have "drop (docs_idx + length ?docs) all_d = drop (length ?docs) (drop docs_idx all_d)"
      by (simp add: add.commute)
    with Cons.prems(5) show ?thesis by (simp add: drop_map)
  qed
  let ?embs = "Some ([fq (Str q)], map fc (map Str ?docs))"
  show ?case
  proof (cases "rerank similarity_fct [fq (Str q)] (map fc (map Str ?docs))")
    case (Inl e)
    then show ?thesis
      by (simp add: Let_def qe de q enc_q enc_c del: num_subqueries.simps)
  next
    case (Inr scores)
    let ?idb = "str (query_idx + 1)"
    have b: "batched_loop similarity_fct all_q all_d query_idx docs_idx rb qb (inst # rest) =
             batched_loop similarity_fct all_q all_d (query_idx + 1) (docs_idx + length ?docs)
               (setitem rb ?idb scores) (setitem qb ?idb ?j) rest"
      using Inr qe by (simp add: Let_def de n del: num_subqueries.simps)
    have c: "individual_loop model similarity_fct i embs ri qi (inst # rest) =
             individual_loop model similarity_fct (i + 1) ?embs
               (setitem ri (str i) scores) (setitem qi (str i) ?j) rest"
      using Inr by (simp add: Let_def q enc_q enc_c)
    have rb: "setitem rb ?idb scores = rb @ [(?idb, scores)]"
      using Cons.prems(6) by (rule setitem_new) simp
    have qb: "setitem qb ?idb ?j = qb @ [(?idb, ?j)]"
      using Cons.prems(7) by (rule setitem_new) simp
    have ri: "setitem ri (str i) scores = ri @ [(str i, scores)]"
      using Cons.prems(8) by (rule setitem_new_lt)
    have qi: "setitem qi (str i) ?j = qi @ [(str i, ?j)]"
      using Cons.prems(9) by (rule setitem_new_lt)
    have "(\<exists>e. batched_loop similarity_fct all_q all_d (query_idx + 1) (docs_idx + length ?docs)
                 (rb @ [(?idb, scores)]) (qb @ [(?idb, ?j)]) rest = Inl e \<and>
               individual_loop model similarity_fct (i + 1) ?embs
                 (ri @ [(str i, scores)]) (qi @ [(str i, ?j)]) rest = Inl e) \<or>
          (\<exists>rb' qb' ri' qi'.
               batched_loop similarity_fct all_q all_d (query_idx + 1) (docs_idx + length ?docs)
                 (rb @ [(?idb, scores)]) (qb @ [(?idb, ?j)]) rest = Inr (rb', qb') \<and>
               individual_loop model similarity_fct (i + 1) ?embs
                 (ri @ [(str i, scores)]) (qi @ [(str i, ?j)]) rest = Inr (ri', qi') \<and>
               map snd rb' = map snd ri' \<and> map snd qb' = map snd qi')"
    proof (rule Cons.IH)
      show "\<forall>inst\<in>set rest. is_str (query inst)" using Cons.prems(1) by simp
      show "\<And>xs. encode_queries_func_individual model xs = map fq xs" by (rule enc_q)
      show "\<And>xs. encode_corpus_func_individual model xs = map fc xs" by (rule enc_c)
      show "drop (query_idx + 1) all_q = map fq (map query rest)" by (rule dq')
      show "drop (docs_idx + length ?docs) all_d = map fc (map Str (concat (map candidates rest)))"
        by (rule dd')
      show "set (keys (rb @ [(?idb, scores)])) \<subseteq> str ` {..query_idx + 1}"
        using Cons.prems(6) by (rule keys_snoc_bound) simp
      show "set (keys (qb @ [(?idb, ?j)])) \<subseteq> str ` {..query_idx + 1}"
        using Cons.prems(7) by (rule keys_snoc_bound) simp
      show "set (keys (ri @ [(str i, scores)])) \<subseteq> str ` {..<i + 1}"
        using keys_snoc_bound_lt [OF Cons.prems(8)] by simp
      show "set (keys (qi @ [(str i, ?j)])) \<subseteq> str ` {..<i + 1}"
        using keys_snoc_bound_lt [OF Cons.prems(9)] by simp
      show "map snd (rb @ [(?idb, scores)]) = map snd (ri @ [(str i, scores)])"
        using Cons.prems(10) by simp
      show "map snd (qb @ [(?idb, ?j)]) = map snd (qi @ [(str i, ?j)])"
        using Cons.prems(11) by simp
    qed
    then show ?thesis by (simp only: b c rb qb ri qi)
  qed
qed

lemma batched_loop_identifiers:
  assumes "\<forall>inst\<in>set samples. 1 \<le> num_subqueries inst"
    and "batched_loop similarity_fct all_query_embs all_docs_embs 0 0 [] [] samples = Inr (results, qrels)"
  shows "keys results = keys qrels \<and>
         keys results = map str (query_offsets 0 samples) \<and>
         distinct (keys results) \<and>
         length (keys results) = length samples"
proof -
  from batched_loop_structure [OF assms(2)]
  have k: "keys results = map str (query_offsets 0 samples)"
    and q: "keys qrels = map str (query_offsets 0 samples)"
    by (simp_all add: keys_def)
  from assms(1) have "distinct (query_offsets 0 samples)" by (rule distinct_query_offsets)
  with k q show ?thesis
    by (simp add: distinct_map_str length_query_offsets)
qed

lemma loop_judgments:
  assumes "map snd qrels = map judgments_of samples"
    and "k < length samples"
    and "i < length (candidates (samples ! k))"
  shows "snd (qrels ! k) = relevance_judgments (positive (samples ! k)) (candidates (samples ! k)) \<and>
         getitem (snd (qrels ! k)) (str i) =
           Some (if candidates (samples ! k) ! i \<in> set (positive (samples ! k)) then 1 else 0)"
proof -
  from assms(1) have "map snd qrels ! k = map judgments_of samples ! k" by simp
  moreover from assms(1) have "length qrels = length samples"
    by (metis length_map)
  ultimately have "snd (qrels ! k) = judgments_of (samples ! k)"
    using assms(2) by simp
  with assms(3) show ?thesis
    by (simp add: judgments_of_def getitem_relevance_judgments)
qed

lemma encode_all_queries_str:
  assumes "samples \<noteq> []" and "\<forall>inst\<in>set samples. is_str (query inst)"
  shows "encode_all_queries model samples =
           Inr (encode_queries_func_batched model (map query samples))"
proof -
  from assms(1) obtain first rest where s: "samples = first # rest" by (cases samples) auto
  with assms(2) obtain q where "query first = Str q" by (cases "query first") auto
  with s show ?thesis by (simp add: encode_all_queries_def)
qed

lemma counting_engine_ignores_identifiers:
  "map snd q = map snd q' \<Longrightarrow> map snd r = map snd r' \<Longrightarrow>
   counting_engine q r k_values = counting_engine q' r' k_values"
  by (simp add: counting_engine_def)

text \<open>
  Where the two computations agree. For a sample set that is not empty and whose queries
  are all single strings, the two loops store the same score maps and the same judgments in
  the same order when both computations select the same encoding functions and these embed
  each text on its own; the batched loop stores them under the identifiers 1, 2, ..., the
  individual loop under 0, 1, ... . The outcomes are then the same for an engine that does
  not look at the identifiers.
\<close>

lemma strategies_agree_up_to_identifiers:
  assumes nonempty: "samples \<noteq> []"
    and strs: "\<forall>inst\<in>set samples. is_str (query inst)"
    and enc_q: "\<And>xs. encode_queries_func_individual model xs = map fq xs"
    and enc_c: "\<And>xs. encode_corpus_func_individual model xs = map fc xs"
    and enc_qb: "\<And>xs. encode_queries_func_batched model xs = map fq xs"
    and enc_cb: "\<And>xs. encode_corpus_func_batched model xs = map fc xs"
    and engine: "\<And>q r q' r'.
        map snd q = map snd q' \<Longrightarrow> map snd r = map snd r' \<Longrightarrow>
        keys q = keys r \<Longrightarrow> keys q' = keys r' \<Longrightarrow>
        distinct (keys q) \<Longrightarrow> distinct (keys q') \<Longrightarrow>
        evaluate q r k_values = evaluate q' r' k_values"
  shows "compute_metrics_batched model similarity_fct evaluate k_values samples =
         compute_metrics_individual model similarity_fct evaluate k_values samples"
proof -
  let ?aq = "map fq (map query samples)"
  let ?ad = "map fc (map Str (concat (map candidates samples)))"
  have b: "compute_metrics_batched model similarity_fct evaluate k_values samples =
           (case batched_loop similarity_fct ?aq ?ad 0 0 [] [] samples of
              Inl e \<Rightarrow> Inl e
            | Inr rq \<Rightarrow> evaluate_and_merge evaluate k_values rq)"
    by (simp add: compute_metrics_batched_def encode_all_queries_str [OF nonempty strs] enc_qb enc_cb)
  have "(\<exists>e. batched_loop similarity_fct ?aq ?ad 0 0 [] [] samples = Inl e \<and>
              individual_loop model similarity_fct 0 None [] [] samples = Inl e) \<or>
        (\<exists>rb' qb' ri' qi'.
              batched_loop similarity_fct ?aq ?ad 0 0 [] [] samples = Inr (rb', qb') \<and>
              individual_loop model similarity_fct 0 None [] [] samples = Inr (ri', qi') \<and>
              map snd rb' = map snd ri' \<and> map snd qb' = map snd qi')"
    by (rule strategies_simulate [OF strs enc_q enc_c]) (simp_all add: keys_def)
  then show ?thesis
  proof (elim disjE exE conjE)
    fix e
    assume "batched_loop similarity_fct ?aq ?ad 0 0 [] [] samples = Inl e"
      and "individual_loop model similarity_fct 0 None [] [] samples = Inl e"
    then show ?thesis by (simp add: b compute_metrics_individual_def)
  next
    fix rb' qb' ri' qi'
    assume bl: "batched_loop similarity_fct ?aq ?ad 0 0 [] [] samples = Inr (rb', qb')"
      and il: "individual_loop model similarity_fct 0 None [] [] samples = Inr (ri', qi')"
      and r: "map snd rb' = map snd ri'" and q: "map snd qb' = map snd qi'"
    from strs have one: "\<forall>inst\<in>set samples. 1 \<le> num_subqueries inst"
      by (simp add: is_str_num_subqueries del: num_subqueries.simps)
    from batched_loop_identifiers [OF one bl]
    have kb: "keys qb' = keys rb'" and db: "distinct (keys qb')" by auto
    from individual_loop_structure [OF il]
    have ki: "keys qi' = keys ri'" and di: "distinct (keys qi')"
      by (simp_all add: keys_def distinct_str_upt)
    from q r kb ki db di have "evaluate qb' rb' k_values = evaluate qi' ri' k_values"
      by (rule engine)
    then have "evaluate_and_merge evaluate k_values (rb', qb') =
               evaluate_and_merge evaluate k_values (ri', qi')"
      by (simp add: evaluate_and_merge_def)
    moreover have "compute_metrics_batched model similarity_fct evaluate k_values samples =
                   evaluate_and_merge evaluate k_values (rb', qb')"
      by (simp only: b bl sum.case)
    moreover have "compute_metrics_individual model similarity_fct evaluate k_values samples =
                   evaluate_and_merge evaluate k_values (ri', qi')"
      by (simp only: compute_metrics_individual_def il sum.case)
    ultimately show ?thesis by simp
  qed
qed

subsection \<open>The metric computations\<close>

text \<open>
  C9. In the batched computation, when every sample has at least one query variant, the
  results and the qrels collections the loop builds have the same keys, one per sample and
  all different: the strings of the running query offset after each sample.
\<close>

theorem batched_identifiers:
  assumes "\<forall>inst\<in>set samples. 1 \<le> num_subqueries inst"
    and "batched_loop similarity_fct all_query_embs all_docs_embs 0 0 [] [] samples = Inr (results, qrels)"
  shows "keys results = keys qrels \<and>
         keys results = map str (query_offsets 0 samples) \<and>
         distinct (keys results) \<and>
         length (keys results) = length samples"
  using assms by (rule batched_loop_identifiers)

theorem batched_identifiers_witness:
  "list_all (\<lambda>inst. 1 \<le> num_subqueries inst) [sample_variants, sample_variants] \<and>
   (\<exists>results qrels.
      batched_loop product_similarity [3, 6, 3, 6] [7, 8, 4, 7, 8, 4] 0 0 [] []
        [sample_variants, sample_variants] = Inr (results, qrels) \<and>
      keys results = [''2'', ''4''] \<and>
      keys results = keys qrels \<and>
      keys results = map str (query_offsets 0 [sample_variants, sample_variants]) \<and>
      distinct (keys results) \<and>
      length (keys results) = length [sample_variants, sample_variants])"
proof -
  have h1: "\<forall>inst\<in>set [sample_variants, sample_variants]. 1 \<le> num_subqueries inst"
    by (simp add: sample_variants_def)
  have h2: "batched_loop product_similarity [3, 6, 3, 6] [7, 8, 4, 7, 8, 4] 0 0 [] []
       [sample_variants, sample_variants] =
     Inr ([(''2'', [(''0'', 42), (''1'', 48), (''2'', 24)]),
           (''4'', [(''0'', 42), (''1'', 48), (''2'', 24)])],
          [(''2'', [(''0'', 1), (''1'', 0), (''2'', 0)]),
           (''4'', [(''0'', 1), (''1'', 0), (''2'', 0)])])"
    by code_simp
  have k: "keys [(''2'', [(''0'', 42 :: int), (''1'', 48), (''2'', 24)]),
                 (''4'', [(''0'', 42), (''1'', 48), (''2'', 24)])] = [''2'', ''4'']"
    by (simp add: keys_def)
  have l: "list_all (\<lambda>inst. 1 \<le> num_subqueries inst) [sample_variants, sample_variants]"
    using h1 by (simp only: list_all_iff)
  from l h2 k batched_identifiers [OF h1 h2] show ?thesis
    by blast
qed

text \<open>
  C8. In the qrels collection that either loop builds, the entry of a sample gives each
  candidate index \<open>i\<close>, as a string, the label 1 if \<open>candidates[i]\<close> is among the sample's
  positives and 0 otherwise. The embedding arrays, the model and the similarity function
  are arbitrary here: the judgments do not depend on them. For the candidates a, b, c and
  the positive b the judgments are 0, 1, 0 (see the theorem after this one).
\<close>

theorem relevance_judgment_maps:
  assumes "k < length samples"
    and "i < length (candidates (samples ! k))"
  shows "(batched_loop similarity_fct all_query_embs all_docs_embs 0 0 [] [] samples =
            Inr (results, qrels) \<longrightarrow>
          snd (qrels ! k) = relevance_judgments (positive (samples ! k)) (candidates (samples ! k)) \<and>
          getitem (snd (qrels ! k)) (str i) =
            Some (if candidates (samples ! k) ! i \<in> set (positive (samples ! k)) then 1 else 0)) \<and>
         (individual_loop model similarity_fct' 0 None [] [] samples = Inr (results', qrels') \<longrightarrow>
          snd (qrels' ! k) = relevance_judgments (positive (samples ! k)) (candidates (samples ! k)) \<and>
          getitem (snd (qrels' ! k)) (str i) =
            Some (if candidates (samples ! k) ! i \<in> set (positive (samples ! k)) then 1 else 0))"
proof (intro conjI impI)
  assume "batched_loop similarity_fct all_query_embs all_docs_embs 0 0 [] [] samples =
            Inr (results, qrels)"
  from batched_loop_structure [OF this] have q: "map snd qrels = map judgments_of samples"
    by (simp add: keys_def)
  note r = loop_judgments [OF q assms]
  show "snd (qrels ! k) = relevance_judgments (positive (samples ! k)) (candidates (samples ! k))"
    by (rule r [THEN conjunct1])
  show "getitem (snd (qrels ! k)) (str i) =
            Some (if candidates (samples ! k) ! i \<in> set (positive (samples ! k)) then 1 else 0)"
    by (rule r [THEN conjunct2])
next
  assume "individual_loop model similarity_fct' 0 None [] [] samples = Inr (results', qrels')"
  from individual_loop_structure [OF this] have q: "map snd qrels' = map judgments_of samples"
    by (simp add: keys_def)
  note r = loop_judgments [OF q assms]
  show "snd (qrels' ! k) = relevance_judgments (positive (samples ! k)) (candidates (samples ! k))"
    by (rule r [THEN conjunct1])
  show "getitem (snd (qrels' ! k)) (str i) =
            Some (if candidates (samples ! k) ! i \<in> set (positive (samples ! k)) then 1 else 0)"
    by (rule r [THEN conjunct2])
qed

theorem relevance_judgment_maps_witness:
  "(0::nat) < length [sample_abc, sample_cat] \<and>
   (1::nat) < length (candidates ([sample_abc, sample_cat] ! 0)) \<and>
   batched_loop product_similarity [1, 3] [1, 1, 1, 8, 7] 0 0 [] [] [sample_abc, sample_cat] =
      Inr ([(''1'', [(''0'', 1), (''1'', 1), (''2'', 1)]), (''2'', [(''0'', 24), (''1'', 21)])],
           [(''1'', [(''0'', 0), (''1'', 1), (''2'', 0)]), (''2'', [(''0'', 1), (''1'', 0)])]) \<and>
   individual_loop length_model product_similarity 0 None [] [] [sample_abc, sample_cat] =
      Inr ([(''0'', [(''0'', 1), (''1'', 1), (''2'', 1)]), (''1'', [(''0'', 24), (''1'', 21)])],
           [(''0'', [(''0'', 0), (''1'', 1), (''2'', 0)]), (''1'', [(''0'', 1), (''1'', 0)])]) \<and>
   relevance_judgments (positive ([sample_abc, sample_cat] ! 0))
       (candidates ([sample_abc, sample_cat] ! 0)) =
     [(''0'', 0), (''1'', 1), (''2'', 0)] \<and>
   getitem [(''0'', 0), (''1'', 1), (''2'', 0)] (str 1) =
     Some (if candidates ([sample_abc, sample_cat] ! 0) ! 1
              \<in> set (positive ([sample_abc, sample_cat] ! 0)) then 1 else 0 :: nat)"
proof -
  let ?S = "[sample_abc, sample_cat]"
  let ?qb = "[(''1'', [(''0'', 0 :: nat), (''1'', 1), (''2'', 0)]), (''2'', [(''0'', 1), (''1'', 0)])]"
  let ?qi = "[(''0'', [(''0'', 0 :: nat), (''1'', 1), (''2'', 0)]), (''1'', [(''0'', 1), (''1'', 0)])]"
  have h1: "(0::nat) < length ?S" by simp
  have h2: "(1::nat) < length (candidates (?S ! 0))"
    by (simp add: sample_abc_def)
  have b: "batched_loop product_similarity [1, 3] [1, 1, 1, 8, 7] 0 0 [] [] ?S =
      Inr ([(''1'', [(''0'', 1), (''1'', 1), (''2'', 1)]), (''2'', [(''0'', 24), (''1'', 21)])], ?qb)"
    by code_simp
  have c: "individual_loop length_model product_similarity 0 None [] [] ?S =
      Inr ([(''0'', [(''0'', 1), (''1'', 1), (''2'', 1)]), (''1'', [(''0'', 24), (''1'', 21)])], ?qi)"
    by code_simp
  have sb: "snd (?qb ! 0) = [(''0'', 0), (''1'', 1), (''2'', 0)]" by simp
  have si: "snd (?qi ! 0) = [(''0'', 0), (''1'', 1), (''2'', 0)]" by simp
  note t = relevance_judgment_maps [OF h1 h2, of product_similarity "[1, 3]" "[1, 1, 1, 8, 7]" _ ?qb
      length_model product_similarity _ ?qi]
  note tb = t [THEN conjunct1, rule_format, OF b] and ti = t [THEN conjunct2, rule_format, OF c]
  have j: "relevance_judgments (positive (?S ! 0)) (candidates (?S ! 0)) =
             [(''0'', 0), (''1'', 1), (''2'', 0)]"
    by (rule sym) (rule tb [THEN conjunct1, unfolded sb])
  have g: "getitem [(''0'', 0), (''1'', 1), (''2'', 0)] (str 1) =
             Some (if candidates (?S ! 0) ! 1 \<in> set (positive (?S ! 0)) then 1 else 0 :: nat)"
    by (rule ti [THEN conjunct2, unfolded si])
  show ?thesis
    by (intro conjI) (fact h1 h2 b c j g)+
qed

text \<open>
  C1 does not hold of the code. On one sample with a single-string query and two
  candidates, of which the first is the relevant one, the two loops store the same score
  map and the same judgments, the batched loop under the identifier 1 (the query offset
  after the sample) and the individual loop under 0 (the position of the sample). Both
  identifiers are candidate identifiers of the sample as well. The engine that leaves out
  the candidate bearing the sample's identifier drops the second candidate after the
  batched loop and the first, relevant one after the individual loop, and the merged
  metrics differ: 1 against 0 under every name.
\<close>

theorem batched_individual_differ_by_identifiers:
  "batched_loop product_similarity [3] [8, 7] 0 0 [] [] [sample_cat] =
     Inr ([(''1'', [(''0'', 24), (''1'', 21)])], [(''1'', [(''0'', 1), (''1'', 0)])]) \<and>
   individual_loop length_model product_similarity 0 None [] [] [sample_cat] =
     Inr ([(''0'', [(''0'', 24), (''1'', 21)])], [(''0'', [(''0'', 1), (''1'', 0)])]) \<and>
   compute_metrics_batched length_model product_similarity own_identifier_engine [1, 3]
       [sample_cat] =
     Inr [(''NDCG@1'', 1), (''NDCG@3'', 1), (''MAP@1'', 1), (''MAP@3'', 1),
          (''Recall@1'', 1), (''Recall@3'', 1), (''P@1'', 1), (''P@3'', 1)] \<and>
   compute_metrics_individual length_model product_similarity own_identifier_engine [1, 3]
       [sample_cat] =
     Inr [(''NDCG@1'', 0), (''NDCG@3'', 0), (''MAP@1'', 0), (''MAP@3'', 0),
          (''Recall@1'', 0), (''Recall@3'', 0), (''P@1'', 0), (''P@3'', 0)]"
  by code_simp

text \<open>
  The two computations also differ in the encoding functions they select. For a model with
  an attribute \<open>encode_queries\<close> that is no \<open>EncoderWithQueryCorpusEncode\<close>, the batched
  computation embeds the queries with \<open>encode\<close> and the individual one with
  \<open>encode_queries\<close>; here the scores of the relevant candidate are 24 and - 24, and the
  engine that does not look at the identifiers reports 1 against 0.
\<close>

lemma batched_individual_select_encoders_differently:
  "encode_queries_func_batched negating_queries_model [Str ''cat''] = [3] \<and>
   encode_queries_func_individual negating_queries_model [Str ''cat''] = [- 3] \<and>
   compute_metrics_batched negating_queries_model product_similarity counting_engine [1, 3]
       [sample_cat] =
     Inr [(''NDCG@1'', 1), (''NDCG@3'', 1), (''MAP@1'', 1), (''MAP@3'', 1),
          (''Recall@1'', 1), (''Recall@3'', 1), (''P@1'', 1), (''P@3'', 1)] \<and>
   compute_metrics_individual negating_queries_model product_similarity counting_engine [1, 3]
       [sample_cat] =
     Inr [(''NDCG@1'', 0), (''NDCG@3'', 0), (''MAP@1'', 0), (''MAP@3'', 0),
          (''Recall@1'', 0), (''Recall@3'', 0), (''P@1'', 0), (''P@3'', 0)]"
  by code_simp

text \<open>
  C3 does not hold of the code. The individual computation has no branch for a query
  that is a list of variants: it keeps the embeddings of the sample before. On a sample
  with a single-string query (two candidates) followed by a sample with two variants
  (three candidates) it raises nothing; the second sample's score map is the first
  sample's, with two entries for three candidates, and metrics are returned. When the
  sample with the variants comes first, the read of the unassigned \<open>query_emb\<close> raises
  \<open>UnboundLocalError\<close>.
\<close>

theorem individual_scores_variants_with_stale_embeddings:
  "individual_loop length_model product_similarity 0 None [] [] [sample_cat, sample_variants] =
     Inr ([(''0'', [(''0'', 24), (''1'', 21)]),
           (''1'', [(''0'', 24), (''1'', 21)])],
          [(''0'', [(''0'', 1), (''1'', 0)]),
           (''1'', [(''0'', 1), (''1'', 0), (''2'', 0)])]) \<and>
   compute_metrics_individual length_model product_similarity counting_engine [1, 3]
       [sample_cat, sample_variants] =
     Inr [(''NDCG@1'', 2), (''NDCG@3'', 2), (''MAP@1'', 2), (''MAP@3'', 2),
          (''Recall@1'', 2), (''Recall@3'', 2), (''P@1'', 2), (''P@3'', 2)] \<and>
   compute_metrics_individual length_model product_similarity counting_engine [1, 3]
       [sample_variants, sample_cat] =
     Inl UnboundLocalError"
  by code_simp

text \<open>
  C4. Called with no samples, the entry point fails with ValueError, the specification's
  InvalidInput, whichever computation is configured. The check comes before the dispatch:
  on no samples the batched computation itself raises \<open>IndexError\<close> at \<open>self.samples[0]\<close>.
\<close>

theorem evaluator_call_rejects_no_samples:
  "evaluator_call use_batched_encoding model similarity_fct evaluate k_values [] =
     Inl (ValueError ''Empty sample set'') \<and>
   compute_metrics_batched model similarity_fct evaluate k_values [] = Inl IndexError"
  by (simp add: evaluator_call_def compute_metrics_batched_def encode_all_queries_def)

end
